theory Spec2Isabelle
  imports Main "HOL-Library.Sublist"
begin

section \<open>Project Feed: data model\<close>

text \<open>
  The embedding follows \<^verbatim>\<open>src/pages/ProjectFeed.tsx\<close>. The fields of
  \<^verbatim>\<open>interface Project\<close> other than \<^verbatim>\<open>id\<close> are the fields a project document
  carries in the store; \<^verbatim>\<open>id\<close> is added when the document is read. JavaScript strings
  are modelled as \<^typ>\<open>string\<close>, the number \<^verbatim>\<open>applicants\<close> as \<^typ>\<open>int\<close>.
\<close>

record ProjectData =
  title :: string
  description :: string
  skills :: "string list"
  teamSize :: string
  duration :: string
  isWomenLed :: bool
  creatorName :: string
  creatorId :: string
  college :: string
  createdAt :: string
  applicants :: int

record Project = ProjectData +
  id_p :: string

text \<open>The state type \<^verbatim>\<open>'all' | 'women'\<close> of the server-side filter selection.\<close>

datatype filterSelection = FilterAll | FilterWomen

section \<open>View filter\<close>

text \<open>
  \<^verbatim>\<open>String.prototype.toLowerCase\<close>, on the ASCII letters; every other character is
  left as it is. JavaScript lowers the letters outside ASCII as well, so the fourth rule
  of the filter below is that of the code on ASCII text only. The properties proved of
  the filter use nothing of the lowering but that it takes the empty string to itself.
\<close>

definition toLowerChar :: "char \<Rightarrow> char" where
  "toLowerChar c =
     (let n = (of_char c :: nat) in if 65 \<le> n \<and> n \<le> 90 then char_of (n + 32) else c)"

definition toLowerCase :: "string \<Rightarrow> string" where
  "toLowerCase s = map toLowerChar s"

text \<open>\<^verbatim>\<open>s.includes(t)\<close>: \<open>t\<close> occurs in \<open>s\<close> as a contiguous run of characters.\<close>

fun includes_str :: "string \<Rightarrow> string \<Rightarrow> bool" where
  "includes_str [] t = (t = [])"
| "includes_str (x # xs) t = (prefix t (x # xs) \<or> includes_str xs t)"

text \<open>
  Truthiness of a value of type \<^verbatim>\<open>string | null\<close>: \<^verbatim>\<open>null\<close> and the empty string
  are falsy, every other string is truthy.
\<close>

fun truthy :: "string option \<Rightarrow> bool" where
  "truthy None = False"
| "truthy (Some s) = (s \<noteq> [])"

text \<open>
  The callback of \<^verbatim>\<open>projects.filter\<close> in \<^verbatim>\<open>filteredProjects\<close>, with the state
  variables it closes over as parameters. \<^verbatim>\<open>project.college === userCollege\<close> compares a
  string with a value of type \<^verbatim>\<open>string | null\<close>.
\<close>

definition keepProject :: "string \<Rightarrow> filterSelection \<Rightarrow> bool \<Rightarrow> string option \<Rightarrow> Project \<Rightarrow> bool" where
  "keepProject searchTerm flt showMyCollege userCollege project =
     (if showMyCollege \<and> truthy userCollege \<and> flt = FilterWomen then
        Some (college project) = userCollege \<and> isWomenLed project
      else if showMyCollege \<and> truthy userCollege then
        Some (college project) = userCollege
      else if flt = FilterWomen then
        isWomenLed project
      else
        includes_str (toLowerCase (title project)) (toLowerCase searchTerm) \<or>
        includes_str (toLowerCase (description project)) (toLowerCase searchTerm) \<or>
        list_ex (\<lambda>skill. includes_str (toLowerCase skill) (toLowerCase searchTerm)) (skills project))"

definition filteredProjects ::
  "Project list \<Rightarrow> string \<Rightarrow> filterSelection \<Rightarrow> bool \<Rightarrow> string option \<Rightarrow> Project list" where
  "filteredProjects projects searchTerm flt showMyCollege userCollege =
     filter (keepProject searchTerm flt showMyCollege userCollege) projects"

section \<open>Component state\<close>

text \<open>The \<^verbatim>\<open>useState\<close> variables of \<^verbatim>\<open>ProjectFeed\<close>, with their initial values.\<close>

record FeedState =
  projects :: "Project list"
  loading :: bool
  searchTerm :: string
  filter_sel :: filterSelection
  userCollege :: "string option"
  showMyCollege :: bool

definition initialState :: FeedState where
  "initialState =
     \<lparr>projects = [], loading = True, searchTerm = [], filter_sel = FilterAll,
      userCollege = None, showMyCollege = False\<rparr>"

text \<open>The value of \<^verbatim>\<open>filteredProjects\<close> at a render of the component.\<close>

definition visibleProjects :: "FeedState \<Rightarrow> Project list" where
  "visibleProjects s =
     filteredProjects (projects s) (searchTerm s) (filter_sel s) (showMyCollege s) (userCollege s)"

section \<open>Document store\<close>

text \<open>
  The store is outside the component: \<^verbatim>\<open>getDoc\<close> and \<^verbatim>\<open>getDocs\<close> are parameters
  that answer a request with a rejection or with a snapshot.
\<close>

datatype FirestoreError = FirestoreError string

text \<open>
  A profile document, of which the component reads the \<^verbatim>\<open>college\<close> field only;
  \<open>None\<close> is a document without that field. A \<^verbatim>\<open>DocumentSnapshot\<close> is \<open>None\<close> when
  \<^verbatim>\<open>exists()\<close> is false and holds \<^verbatim>\<open>data()\<close> otherwise.
\<close>

record ProfileData =
  profile_college :: "string option"

type_synonym DocumentSnapshot = "ProfileData option"

text \<open>\<^verbatim>\<open>doc(db, collectionName, id)\<close>\<close>

type_synonym DocumentReference = "string \<times> string"

text \<open>\<^verbatim>\<open>where(field, op, value)\<close> and \<^verbatim>\<open>query(collection, ...constraints)\<close>\<close>

datatype QueryConstraint = Where string string bool

record Query =
  q_collection :: string
  q_constraints :: "QueryConstraint list"

text \<open>
  The field data of a project document: the fields of a project and, when the document
  has a field of its own named \<^verbatim>\<open>id\<close>, that field.
\<close>

record DocumentData = ProjectData +
  data_id :: "string option"

record QueryDocumentSnapshot =
  doc_id :: string
  doc_data :: DocumentData

section \<open>Identity resolver\<close>

text \<open>\<^verbatim>\<open>v || null\<close> on a value that is a string or missing.\<close>

definition orNull :: "string option \<Rightarrow> string option" where
  "orNull v = (if truthy v then v else None)"

text \<open>The continuation of \<^verbatim>\<open>fetchCollege\<close> after \<^verbatim>\<open>await getDoc(profileRef)\<close>.\<close>

definition collegeFetched :: "DocumentSnapshot \<Rightarrow> FeedState \<Rightarrow> FeedState" where
  "collegeFetched profileSnap s =
     (case profileSnap of
        Some d \<Rightarrow> s\<lparr>userCollege := orNull (profile_college d)\<rparr>
      | None \<Rightarrow> s)"

text \<open>
  \<^verbatim>\<open>fetchCollege\<close> run to completion. Nothing catches a rejection of \<^verbatim>\<open>getDoc\<close>:
  the state stays as it is.
\<close>

definition fetchCollege ::
  "(DocumentReference \<Rightarrow> FirestoreError + DocumentSnapshot) \<Rightarrow> string \<Rightarrow> FeedState \<Rightarrow> FeedState" where
  "fetchCollege getDoc uid s =
     (let profileRef = (''profiles'', uid) in
      case getDoc profileRef of
        Inr profileSnap \<Rightarrow> collegeFetched profileSnap s
      | Inl e \<Rightarrow> s)"

text \<open>
  The effect that runs on every change of \<^verbatim>\<open>currentUser\<close>, given as the user's
  \<^verbatim>\<open>uid\<close> or \<open>None\<close> when nobody is signed in.
\<close>

definition identityEffect ::
  "(DocumentReference \<Rightarrow> FirestoreError + DocumentSnapshot) \<Rightarrow> string option \<Rightarrow> FeedState \<Rightarrow> FeedState" where
  "identityEffect getDoc currentUser s =
     (case currentUser of
        Some uid \<Rightarrow> fetchCollege getDoc uid s
      | None \<Rightarrow> s\<lparr>userCollege := None\<rparr>)"

section \<open>Project loader\<close>

text \<open>
  The query that \<^verbatim>\<open>fetchProjects\<close> builds from the \<^verbatim>\<open>filter\<close> of the render it
  belongs to.
\<close>

definition buildQuery :: "filterSelection \<Rightarrow> Query" where
  "buildQuery flt =
     (let projectQuery = ''projects'';
          constraints = (if flt = FilterWomen then [Where ''isWomenLed'' ''=='' True] else [])
      in if length constraints > 0
         then \<lparr>q_collection = projectQuery, q_constraints = constraints\<rparr>
         else \<lparr>q_collection = projectQuery, q_constraints = []\<rparr>)"

text \<open>
  \<^verbatim>\<open>{ id: doc.id, ...doc.data() }\<close>: the spread comes second, so a field named
  \<^verbatim>\<open>id\<close> in the data replaces the document's identifier.
\<close>

definition toProject :: "QueryDocumentSnapshot \<Rightarrow> Project" where
  "toProject d =
     (let dat = doc_data d in
      \<lparr>title = title dat, description = description dat, skills = skills dat,
       teamSize = teamSize dat, duration = duration dat, isWomenLed = isWomenLed dat,
       creatorName = creatorName dat, creatorId = creatorId dat, college = college dat,
       createdAt = createdAt dat, applicants = applicants dat,
       id_p = (case data_id dat of Some i \<Rightarrow> i | None \<Rightarrow> doc_id d)\<rparr>)"

text \<open>What a call does to the world outside the component state.\<close>

record Effects =
  requests :: "Query list"
  toasts :: "(string \<times> string) list"
  consoleErrors :: "(string \<times> FirestoreError) list"

text \<open>The three stretches of \<^verbatim>\<open>fetchProjects\<close> between which other events can run.\<close>

definition loadStarted :: "FeedState \<Rightarrow> FeedState" where
  "loadStarted s = s\<lparr>loading := True\<rparr>"

definition loadSucceeded :: "QueryDocumentSnapshot list \<Rightarrow> FeedState \<Rightarrow> FeedState" where
  "loadSucceeded docs s = (s\<lparr>projects := map toProject docs\<rparr>)\<lparr>loading := False\<rparr>"

definition loadFailed :: "FeedState \<Rightarrow> FeedState" where
  "loadFailed s = s\<lparr>loading := False\<rparr>"

text \<open>\<^verbatim>\<open>fetchProjects\<close> run to completion, with what it sent and emitted.\<close>

definition fetchProjects ::
  "(Query \<Rightarrow> FirestoreError + QueryDocumentSnapshot list) \<Rightarrow> FeedState \<Rightarrow> FeedState \<times> Effects" where
  "fetchProjects getDocs s =
     (let s1 = loadStarted s;
          q = buildQuery (filter_sel s)
      in case getDocs q of
           Inr docs \<Rightarrow>
             (loadSucceeded docs s1, \<lparr>requests = [q], toasts = [], consoleErrors = []\<rparr>)
         | Inl error \<Rightarrow>
             (loadFailed s1,
              \<lparr>requests = [q], toasts = [(''Failed to load projects'', ''error'')],
               consoleErrors = [(''Error fetching projects:'', error)]\<rparr>))"

definition handleSearch ::
  "(Query \<Rightarrow> FirestoreError + QueryDocumentSnapshot list) \<Rightarrow> FeedState \<Rightarrow> FeedState \<times> Effects" where
  "handleSearch getDocs s = fetchProjects getDocs s"

section \<open>States the component can be in\<close>

text \<open>
  Everything that writes a state variable: the three setters bound to the controls, the
  two branches of the identity effect, and the stretches of \<^verbatim>\<open>fetchProjects\<close>. The
  two fetches are asynchronous, so their continuations are events of their own.
\<close>

datatype event =
    SetSearchTerm string
  | SetFilter filterSelection
  | SetShowMyCollege bool
  | SignedOut
  | CollegeFetched DocumentSnapshot
  | LoadStarted
  | LoadSucceeded "QueryDocumentSnapshot list"
  | LoadFailed

fun apply_event :: "event \<Rightarrow> FeedState \<Rightarrow> FeedState" where
  "apply_event (SetSearchTerm t) s = s\<lparr>searchTerm := t\<rparr>"
| "apply_event (SetFilter f) s = s\<lparr>filter_sel := f\<rparr>"
| "apply_event (SetShowMyCollege b) s = s\<lparr>showMyCollege := b\<rparr>"
| "apply_event SignedOut s = s\<lparr>userCollege := None\<rparr>"
| "apply_event (CollegeFetched profileSnap) s = collegeFetched profileSnap s"
| "apply_event LoadStarted s = loadStarted s"
| "apply_event (LoadSucceeded docs) s = loadSucceeded docs s"
| "apply_event LoadFailed s = loadFailed s"

inductive reachable :: "FeedState \<Rightarrow> bool" where
  initial: "reachable initialState"
| step: "reachable s \<Longrightarrow> reachable (apply_event e s)"

section \<open>Session identity and profile fetches in flight\<close>

text \<open>
  The identity effect does not wait for the fetch it starts, and nothing cancels a
  fetch when the identity changes again. A session is the current identity, the users
  whose profile fetch is in flight, and the component state. A change of identity runs
  the effect up to \<^verbatim>\<open>await getDoc(profileRef)\<close>, or its \<^verbatim>\<open>else\<close> branch; a
  fetch in flight resolves at any later moment and runs the rest of \<^verbatim>\<open>fetchCollege\<close>.
\<close>

record Session =
  currentUser :: "string option"
  pending :: "string list"
  feed :: FeedState

datatype session_event = IdentityChanged "string option" | FetchResolved string

fun session_step ::
  "(DocumentReference \<Rightarrow> FirestoreError + DocumentSnapshot) \<Rightarrow> session_event \<Rightarrow> Session \<Rightarrow> Session" where
  "session_step getDoc (IdentityChanged cu) w =
     (case cu of
        Some uid \<Rightarrow> w\<lparr>currentUser := cu, pending := pending w @ [uid]\<rparr>
      | None \<Rightarrow> w\<lparr>currentUser := cu, feed := (feed w)\<lparr>userCollege := None\<rparr>\<rparr>)"
| "session_step getDoc (FetchResolved uid) w =
     (if uid \<in> set (pending w)
      then w\<lparr>pending := remove1 uid (pending w), feed := fetchCollege getDoc uid (feed w)\<rparr>
      else w)"

fun run ::
  "(DocumentReference \<Rightarrow> FirestoreError + DocumentSnapshot) \<Rightarrow> session_event list \<Rightarrow> Session \<Rightarrow> Session" where
  "run getDoc [] w = w"
| "run getDoc (e # es) w = run getDoc es (session_step getDoc e w)"

text \<open>The component as mounted: nobody signed in, no fetch in flight.\<close>

definition initialSession :: Session where
  "initialSession = \<lparr>currentUser = None, pending = [], feed = initialState\<rparr>"

section \<open>Example data\<close>

text \<open>The two projects of the scenarios: "App" of college X, and "Bot" of college Y, led by women.\<close>

definition projectApp :: Project where
  "projectApp =
     \<lparr>title = ''App'', description = [], skills = [], teamSize = [], duration = [],
      isWomenLed = False, creatorName = [], creatorId = [], college = ''X'', createdAt = [],
      applicants = 0, id_p = ''1''\<rparr>"

definition projectBot :: Project where
  "projectBot =
     \<lparr>title = ''Bot'', description = [], skills = [], teamSize = [], duration = [],
      isWomenLed = True, creatorName = [], creatorId = [], college = ''Y'', createdAt = [],
      applicants = 0, id_p = ''2''\<rparr>"

text \<open>The document of "Bot" in the store, and a document that has a field named \<^verbatim>\<open>id\<close>.\<close>

definition docBot :: QueryDocumentSnapshot where
  "docBot =
     \<lparr>doc_id = ''2'',
      doc_data = \<lparr>title = ''Bot'', description = [], skills = [], teamSize = [], duration = [],
        isWomenLed = True, creatorName = [], creatorId = [], college = ''Y'', createdAt = [],
        applicants = 0, data_id = None\<rparr>\<rparr>"

definition docOwnId :: QueryDocumentSnapshot where
  "docOwnId =
     \<lparr>doc_id = ''3'',
      doc_data = \<lparr>title = ''Cam'', description = [], skills = [], teamSize = [], duration = [],
        isWomenLed = True, creatorName = [], creatorId = [], college = ''X'', createdAt = [],
        applicants = 0, data_id = Some ''own''\<rparr>\<rparr>"

text \<open>A store that answers every query with these two documents, and one that rejects.\<close>

definition getDocsTwo :: "Query \<Rightarrow> FirestoreError + QueryDocumentSnapshot list" where
  "getDocsTwo q = Inr [docBot, docOwnId]"

definition getDocsUnavailable :: "Query \<Rightarrow> FirestoreError + QueryDocumentSnapshot list" where
  "getDocsUnavailable q = Inl (FirestoreError ''unavailable'')"

text \<open>
  A profile store whose only record is that of user "a", of college X; and one in which
  every record has the empty string as its college.
\<close>

definition getDocOnlyA :: "DocumentReference \<Rightarrow> FirestoreError + DocumentSnapshot" where
  "getDocOnlyA ref =
     (if ref = (''profiles'', ''a'') then Inr (Some \<lparr>profile_college = Some ''X''\<rparr>) else Inr None)"

definition getDocEmptyCollege :: "DocumentReference \<Rightarrow> FirestoreError + DocumentSnapshot" where
  "getDocEmptyCollege ref = Inr (Some \<lparr>profile_college = Some []\<rparr>)"

section \<open>The resolved college is never the empty string\<close>

text \<open>
  \<^verbatim>\<open>userCollege\<close> starts as \<^verbatim>\<open>null\<close> and is written in two places only, with
  \<^verbatim>\<open>null\<close> and with \<^verbatim>\<open>college || null\<close>. So in every state of the component a
  resolved college that is present is a non-empty string, and the truthiness test of
  the view filter is a test for presence.
\<close>

lemma orNull_nonempty: "orNull v \<noteq> Some []"
  by (cases v) (simp_all add: orNull_def)

lemma apply_event_userCollege:
  "userCollege s \<noteq> Some [] \<Longrightarrow> userCollege (apply_event e s) \<noteq> Some []"
  by (cases e)
     (simp_all add: collegeFetched_def loadStarted_def loadSucceeded_def loadFailed_def
        orNull_nonempty split: option.split)

lemma reachable_userCollege: "reachable s \<Longrightarrow> userCollege s \<noteq> Some []"
proof (induction rule: reachable.induct)
  case initial
  show ?case by (simp add: initialState_def)
next
  case (step s e)
  from step.IH show ?case by (rule apply_event_userCollege)
qed

text \<open>
  Outside those states the test is not one for presence: handed the empty string as the
  resolved college, the filter goes on to the later rules.
\<close>

lemma empty_college_is_falsy:
  "filteredProjects P t flt True (Some []) = filteredProjects P t flt False None"
proof -
  have "keepProject t flt True (Some []) = keepProject t flt False None"
    by (simp add: keepProject_def fun_eq_iff)
  then show ?thesis by (simp add: filteredProjects_def)
qed

section \<open>Properties of the view filter\<close>

lemma includes_str_Nil: "includes_str s []"
  by (cases s) simp_all

text \<open>
  C1. In every state of the component in which the resolved college is present, with
  the my-college toggle on and a filter selection other than women-led, the visible
  projects of any project list are exactly those whose college is the resolved college,
  in the list's order, whatever the search term is.
\<close>

theorem my_college_rule:
  assumes "reachable s" and "userCollege s = Some c" and "flt \<noteq> FilterWomen"
  shows "filteredProjects P t flt True (userCollege s) = filter (\<lambda>p. college p = c) P"
proof -
  from assms(1,2) have "c \<noteq> []" using reachable_userCollege by fastforce
  with assms(2,3) have "keepProject t flt True (userCollege s) = (\<lambda>p. college p = c)"
    by (simp add: keepProject_def fun_eq_iff)
  then show ?thesis by (simp add: filteredProjects_def)
qed

text \<open>
  After the profile of a user of college X has been fetched, "App" (college X) is shown
  although the search term "zzz" does not occur in it, and "Bot" is not.
\<close>

theorem my_college_rule_witness:
  "reachable (apply_event (CollegeFetched (Some \<lparr>profile_college = Some ''X''\<rparr>)) initialState) \<and>
   userCollege (apply_event (CollegeFetched (Some \<lparr>profile_college = Some ''X''\<rparr>)) initialState)
     = Some ''X'' \<and>
   FilterAll \<noteq> FilterWomen \<and>
   filteredProjects [projectApp, projectBot] ''zzz'' FilterAll True (Some ''X'') = [projectApp]"
proof -
  let ?s = "apply_event (CollegeFetched (Some \<lparr>profile_college = Some ''X''\<rparr>)) initialState"
  have r: "reachable ?s" by (rule reachable.step) (rule reachable.initial)
  have u: "userCollege ?s = Some ''X''"
    by (simp add: collegeFetched_def orNull_def initialState_def)
  have f: "FilterAll \<noteq> FilterWomen" by simp
  from my_college_rule [OF r u f, of "[projectApp, projectBot]" "''zzz''"] r u show ?thesis
    by (simp add: projectApp_def projectBot_def)
qed

text \<open>
  C4. In every state of the component in which the resolved college is present, with
  the my-college toggle on and the women-led filter selected, the visible projects of
  any project list are exactly those of the resolved college that are led by women.
\<close>

theorem my_college_women_rule:
  assumes "reachable s" and "userCollege s = Some c"
  shows "filteredProjects P t FilterWomen True (userCollege s) =
         filter (\<lambda>p. college p = c \<and> isWomenLed p) P"
proof -
  from assms have "c \<noteq> []" using reachable_userCollege by fastforce
  with assms(2) have
    "keepProject t FilterWomen True (userCollege s) = (\<lambda>p. college p = c \<and> isWomenLed p)"
    by (simp add: keepProject_def fun_eq_iff)
  then show ?thesis by (simp add: filteredProjects_def)
qed

theorem my_college_women_rule_witness:
  "reachable (apply_event (CollegeFetched (Some \<lparr>profile_college = Some ''Y''\<rparr>)) initialState) \<and>
   userCollege (apply_event (CollegeFetched (Some \<lparr>profile_college = Some ''Y''\<rparr>)) initialState)
     = Some ''Y'' \<and>
   filteredProjects [projectApp, projectBot, projectBot\<lparr>isWomenLed := False\<rparr>]
     ''app'' FilterWomen True (Some ''Y'') = [projectBot]"
proof -
  let ?s = "apply_event (CollegeFetched (Some \<lparr>profile_college = Some ''Y''\<rparr>)) initialState"
  have r: "reachable ?s" by (rule reachable.step) (rule reachable.initial)
  have u: "userCollege ?s = Some ''Y''"
    by (simp add: collegeFetched_def orNull_def initialState_def)
  from my_college_women_rule
         [OF r u, of "[projectApp, projectBot, projectBot\<lparr>isWomenLed := False\<rparr>]" "''app''"] r u
  show ?thesis
    by (simp add: projectApp_def projectBot_def)
qed

text \<open>
  C5. With the women-led filter selected and the my-college toggle off, or the resolved
  college absent, the visible projects of a list P are the projects of P that are led by
  women, in the order of P, for every search term.
\<close>

theorem women_rule:
  assumes "\<not> toggle \<or> rc = None"
  shows "filteredProjects P t FilterWomen toggle rc = filter isWomenLed P \<and>
         subseq (filteredProjects P t FilterWomen toggle rc) P"
proof -
  from assms have "keepProject t FilterWomen toggle rc = isWomenLed"
    by (auto simp: keepProject_def fun_eq_iff)
  then show ?thesis by (simp add: filteredProjects_def)
qed

theorem women_rule_witness:
  "filteredProjects [projectApp, projectBot] ''app'' FilterWomen False (Some ''X'') = [projectBot] \<and>
   subseq [projectBot] [projectApp, projectBot]"
  using women_rule [of False "Some ''X''" "[projectApp, projectBot]" "''app''"]
  by (simp add: projectApp_def projectBot_def)

text \<open>
  C6. With the empty search term, the filter selection "all" and the my-college toggle
  off, every project of the list is visible, whatever the resolved college is.
\<close>

theorem show_all: "filteredProjects P [] FilterAll False c = P"
  by (simp add: filteredProjects_def keepProject_def toLowerCase_def includes_str_Nil)

theorem show_all_witness:
  "filteredProjects [projectApp, projectBot] [] FilterAll False (Some ''X'') = [projectApp, projectBot]"
  using show_all [of "[projectApp, projectBot]" "Some ''X''"] by simp

text \<open>
  C7. With the resolved college absent, the visible projects with the my-college toggle
  on are those with the toggle off, for every project list, search term and filter
  selection.
\<close>

theorem toggle_without_college:
  "filteredProjects P t flt True None = filteredProjects P t flt False rc"
proof -
  have "keepProject t flt True None = keepProject t flt False rc"
    by (simp add: keepProject_def fun_eq_iff)
  then show ?thesis by (simp add: filteredProjects_def)
qed

theorem toggle_without_college_witness:
  "filteredProjects [projectApp, projectBot] ''zzz'' FilterWomen True None = [projectBot]"
proof -
  have "filteredProjects [projectApp, projectBot] ''zzz'' FilterWomen False (Some ''X'') = [projectBot]"
    by (simp add: filteredProjects_def keepProject_def projectApp_def projectBot_def)
  with toggle_without_college [of "[projectApp, projectBot]" "''zzz''" FilterWomen "Some ''X''"]
  show ?thesis by simp
qed

section \<open>Properties of the project loader\<close>

text \<open>
  C3. From every state, when the fetch of the project collection is rejected,
  \<^verbatim>\<open>fetchProjects\<close> leaves the project list as it was (of the state only the loading
  flag can differ), emits exactly one notification, "Failed to load projects" of severity
  "error", and ends with the loading flag false; the loading flag is false after a
  successful fetch as well.
\<close>

theorem load_failure:
  "(getDocs (buildQuery (filter_sel s)) = Inl e \<longrightarrow>
      projects (fst (fetchProjects getDocs s)) = projects s \<and>
      fst (fetchProjects getDocs s) = s\<lparr>loading := False\<rparr> \<and>
      toasts (snd (fetchProjects getDocs s)) = [(''Failed to load projects'', ''error'')]) \<and>
   \<not> loading (fst (fetchProjects getDocs s))"
  by (simp add: fetchProjects_def loadStarted_def loadSucceeded_def loadFailed_def Let_def
        split: sum.split)

theorem load_failure_witness:
  "getDocsUnavailable (buildQuery (filter_sel (initialState\<lparr>projects := [projectApp]\<rparr>)))
     = Inl (FirestoreError ''unavailable'') \<and>
   projects (fst (fetchProjects getDocsUnavailable (initialState\<lparr>projects := [projectApp]\<rparr>)))
     = [projectApp] \<and>
   toasts (snd (fetchProjects getDocsUnavailable (initialState\<lparr>projects := [projectApp]\<rparr>)))
     = [(''Failed to load projects'', ''error'')] \<and>
   \<not> loading (fst (fetchProjects getDocsUnavailable (initialState\<lparr>projects := [projectApp]\<rparr>)))"
  using load_failure [of getDocsUnavailable "initialState\<lparr>projects := [projectApp]\<rparr>"
                         "FirestoreError ''unavailable''"]
  by (simp add: getDocsUnavailable_def)

text \<open>
  What a run of \<^verbatim>\<open>fetchProjects\<close> sends and stores. It sends one query, against the
  collection "projects", with the single constraint \<^verbatim>\<open>isWomenLed == true\<close> when the
  filter selection is women-led and with no constraint otherwise. When the query
  succeeds, the project list becomes the list of the fetched documents, in their order:
  each entry has the fields of its document's data, and as identifier the document's
  identifier, unless the data has a field named \<^verbatim>\<open>id\<close> itself, which then takes its
  place.
\<close>

lemma load_success:
  "requests (snd (fetchProjects getDocs s)) =
     [\<lparr>q_collection = ''projects'',
       q_constraints =
         (if filter_sel s = FilterWomen then [Where ''isWomenLed'' ''=='' True] else [])\<rparr>] \<and>
   (getDocs (buildQuery (filter_sel s)) = Inr docs \<longrightarrow>
      projects (fst (fetchProjects getDocs s)) = map toProject docs \<and>
      length (projects (fst (fetchProjects getDocs s))) = length docs \<and>
      (\<forall>i < length docs.
         ProjectData.truncate (projects (fst (fetchProjects getDocs s)) ! i)
           = ProjectData.truncate (doc_data (docs ! i)) \<and>
         id_p (projects (fst (fetchProjects getDocs s)) ! i) =
           (case data_id (doc_data (docs ! i)) of
              None \<Rightarrow> doc_id (docs ! i)
            | Some own \<Rightarrow> own)))"
  by (auto simp add: fetchProjects_def loadStarted_def loadSucceeded_def loadFailed_def Let_def
        buildQuery_def toProject_def ProjectData.truncate_def
        split: sum.split option.split)

text \<open>
  C8. The claim has every entry of the loaded list carry the identifier the store
  assigned to its document. The code writes \<^verbatim>\<open>id: doc.id\<close> and then spreads the
  document's data over it: the store holds the documents "2" and "3", the data of "3"
  has a field \<^verbatim>\<open>id\<close> of value "own", and the loaded list has the identifiers "2" and
  "own".
\<close>

theorem load_entry_identifier:
  "getDocsTwo (buildQuery (filter_sel initialState)) = Inr [docBot, docOwnId] \<and>
   map doc_id [docBot, docOwnId] = [''2'', ''3''] \<and>
   map id_p (projects (fst (fetchProjects getDocsTwo initialState))) = [''2'', ''own'']"
proof -
  have g: "getDocsTwo (buildQuery (filter_sel initialState)) = Inr [docBot, docOwnId]"
    by (simp add: getDocsTwo_def)
  with load_success [of getDocsTwo initialState "[docBot, docOwnId]"]
  have "projects (fst (fetchProjects getDocsTwo initialState)) = map toProject [docBot, docOwnId]"
    by blast
  then show ?thesis using g
    by (simp add: toProject_def docBot_def docOwnId_def)
qed

text \<open>
  C9. The search action is \<^verbatim>\<open>fetchProjects\<close>: from every state it has the same result
  and the same effects. The query it sends is the one built from the filter selection
  alone, so it is the same for every search term, and the state it leaves differs from
  the one a reload leaves in the search term only.
\<close>

theorem search_is_reload:
  "handleSearch getDocs s = fetchProjects getDocs s \<and>
   requests (snd (handleSearch getDocs (s\<lparr>searchTerm := t\<rparr>))) = [buildQuery (filter_sel s)] \<and>
   requests (snd (handleSearch getDocs (s\<lparr>searchTerm := t\<rparr>))) =
     requests (snd (fetchProjects getDocs s)) \<and>
   snd (handleSearch getDocs (s\<lparr>searchTerm := t\<rparr>)) = snd (fetchProjects getDocs s) \<and>
   fst (handleSearch getDocs (s\<lparr>searchTerm := t\<rparr>)) =
     (fst (fetchProjects getDocs s))\<lparr>searchTerm := t\<rparr>"
  by (simp add: handleSearch_def fetchProjects_def loadStarted_def loadSucceeded_def
        loadFailed_def Let_def split: sum.split)

theorem search_is_reload_witness:
  "requests (snd (handleSearch getDocsTwo (initialState\<lparr>searchTerm := ''bot''\<rparr>))) =
     [\<lparr>q_collection = ''projects'', q_constraints = []\<rparr>] \<and>
   requests (snd (fetchProjects getDocsTwo initialState)) =
     [\<lparr>q_collection = ''projects'', q_constraints = []\<rparr>]"
proof -
  have q: "buildQuery (filter_sel initialState) = \<lparr>q_collection = ''projects'', q_constraints = []\<rparr>"
    by (simp add: buildQuery_def initialState_def)
  from search_is_reload [of getDocsTwo initialState "''bot''"] show ?thesis
    unfolding q by metis
qed

section \<open>Properties of the identity resolver\<close>

text \<open>
  C10. When the profile record of the signed-in user exists, the resolved college after
  the fetch is the record's college if that is a non-empty string, and absent if it is
  the empty string or missing; a record with the empty string as college and one
  without the field leave the component in the same state.
\<close>

theorem falsy_college_is_absent:
  "(getDoc (''profiles'', uid) = Inr (Some r) \<longrightarrow>
      userCollege (identityEffect getDoc (Some uid) s) =
        (case profile_college r of
           Some c \<Rightarrow> if c = [] then None else Some c
         | None \<Rightarrow> None)) \<and>
   identityEffect (\<lambda>ref. Inr (Some (r\<lparr>profile_college := Some []\<rparr>))) (Some uid) s =
   identityEffect (\<lambda>ref. Inr (Some (r\<lparr>profile_college := None\<rparr>))) (Some uid) s"
  by (simp add: identityEffect_def fetchCollege_def collegeFetched_def orNull_def
        split: option.split)

theorem falsy_college_is_absent_witness:
  "getDocEmptyCollege (''profiles'', ''a'') = Inr (Some \<lparr>profile_college = Some []\<rparr>) \<and>
   userCollege (identityEffect getDocEmptyCollege (Some ''a'')
                  (initialState\<lparr>userCollege := Some ''X''\<rparr>)) = None"
  using falsy_college_is_absent
          [of getDocEmptyCollege "''a''" "\<lparr>profile_college = Some []\<rparr>"
              "initialState\<lparr>userCollege := Some ''X''\<rparr>"]
  by (simp add: getDocEmptyCollege_def)

text \<open>
  The identity effect run to completion is a change of identity followed at once by
  the resolution of the fetch it started, with no other fetch in flight.
\<close>

lemma identityEffect_as_events:
  "pending w = [] \<Longrightarrow>
   feed (run getDoc
          (case cu of None \<Rightarrow> [IdentityChanged None]
                    | Some uid \<Rightarrow> [IdentityChanged (Some uid), FetchResolved uid]) w)
     = identityEffect getDoc cu (feed w)"
  by (cases cu) (simp_all add: identityEffect_def)

text \<open>
  With no fetch in flight, a sign-out leaves the resolved college absent for as long as
  nobody signs in.
\<close>

lemma run_resolved_idle:
  "pending w = [] \<Longrightarrow> run getDoc (map FetchResolved uids) w = w"
  by (induction uids) simp_all

lemma signed_out_stays_absent:
  assumes "pending w = []"
  shows "userCollege (feed (run getDoc (IdentityChanged None # map FetchResolved uids) w)) = None"
    and "currentUser (run getDoc (IdentityChanged None # map FetchResolved uids) w) = None"
proof -
  let ?w = "session_step getDoc (IdentityChanged None) w"
  from assms have "pending ?w = []" by simp
  then have "run getDoc (map FetchResolved uids) ?w = ?w" by (rule run_resolved_idle)
  then show "userCollege (feed (run getDoc (IdentityChanged None # map FetchResolved uids) w)) = None"
    and "currentUser (run getDoc (IdentityChanged None # map FetchResolved uids) w) = None"
    by simp_all
qed

text \<open>
  C2, as the code has it. For every prior state: when the session identity becomes
  absent the resolved college is absent at once, with no fetch started, and it stays
  absent while the identity is absent if no profile fetch was in flight at that moment.
  After the effect has run to completion for a present identity whose profile record
  exists, the resolved college is the record's college when that is a non-empty string,
  and absent when the record has no college or the empty string; when the record does
  not exist, the resolved college is absent if it was absent before.
\<close>

theorem resolved_college_after_effect:
  "userCollege (feed (session_step getDoc (IdentityChanged None) w)) = None \<and>
   pending (session_step getDoc (IdentityChanged None) w) = pending w \<and>
   (pending w = [] \<longrightarrow>
      currentUser (run getDoc (IdentityChanged None # map FetchResolved uids) w) = None \<and>
      userCollege (feed (run getDoc (IdentityChanged None # map FetchResolved uids) w)) = None) \<and>
   userCollege (identityEffect getDoc None s) = None \<and>
   (getDoc (''profiles'', uid) = Inr (Some r) \<longrightarrow>
      (\<forall>c. profile_college r = Some c \<and> c \<noteq> [] \<longrightarrow>
           userCollege (identityEffect getDoc (Some uid) s) = Some c) \<and>
      (profile_college r = None \<or> profile_college r = Some [] \<longrightarrow>
           userCollege (identityEffect getDoc (Some uid) s) = None)) \<and>
   (getDoc (''profiles'', uid) = Inr None \<and> userCollege s = None \<longrightarrow>
      userCollege (identityEffect getDoc (Some uid) s) = None)"
proof -
  have a: "userCollege (feed (session_step getDoc (IdentityChanged None) w)) = None"
    and b: "pending (session_step getDoc (IdentityChanged None) w) = pending w"
    by simp_all
  have c: "pending w = [] \<longrightarrow>
      currentUser (run getDoc (IdentityChanged None # map FetchResolved uids) w) = None \<and>
      userCollege (feed (run getDoc (IdentityChanged None # map FetchResolved uids) w)) = None"
    using signed_out_stays_absent [of w getDoc uids] by blast
  have d: "userCollege (identityEffect getDoc None s) = None"
    by (simp add: identityEffect_def)
  have e: "getDoc (''profiles'', uid) = Inr (Some r) \<longrightarrow>
      (\<forall>c. profile_college r = Some c \<and> c \<noteq> [] \<longrightarrow>
           userCollege (identityEffect getDoc (Some uid) s) = Some c) \<and>
      (profile_college r = None \<or> profile_college r = Some [] \<longrightarrow>
           userCollege (identityEffect getDoc (Some uid) s) = None)"
    by (auto simp add: identityEffect_def fetchCollege_def collegeFetched_def orNull_def)
  have f: "getDoc (''profiles'', uid) = Inr None \<and> userCollege s = None \<longrightarrow>
      userCollege (identityEffect getDoc (Some uid) s) = None"
    by (auto simp add: identityEffect_def fetchCollege_def collegeFetched_def)
  from a b c d e f show ?thesis by blast
qed

theorem resolved_college_after_effect_witness:
  "pending (run getDocOnlyA [IdentityChanged (Some ''a''), FetchResolved ''a''] initialSession) = [] \<and>
   userCollege (feed (run getDocOnlyA [IdentityChanged (Some ''a''), FetchResolved ''a''] initialSession))
     = Some ''X'' \<and>
   userCollege (feed (run getDocOnlyA
       (IdentityChanged None # map FetchResolved [''a''])
       (run getDocOnlyA [IdentityChanged (Some ''a''), FetchResolved ''a''] initialSession))) = None \<and>
   getDocOnlyA (''profiles'', ''a'') = Inr (Some \<lparr>profile_college = Some ''X''\<rparr>) \<and>
   profile_college \<lparr>profile_college = Some ''X''\<rparr> = Some ''X'' \<and> ''X'' \<noteq> [] \<and>
   userCollege (identityEffect getDocOnlyA (Some ''a'') initialState) = Some ''X'' \<and>
   userCollege (identityEffect getDocOnlyA None
                  (identityEffect getDocOnlyA (Some ''a'') initialState)) = None"
proof -
  let ?w = "run getDocOnlyA [IdentityChanged (Some ''a''), FetchResolved ''a''] initialSession"
  have p: "pending ?w = []" by (simp add: initialSession_def)
  have u: "userCollege (feed ?w) = Some ''X''"
    by (simp add: initialSession_def initialState_def getDocOnlyA_def fetchCollege_def
          collegeFetched_def orNull_def)
  have g: "getDocOnlyA (''profiles'', ''a'') = Inr (Some \<lparr>profile_college = Some ''X''\<rparr>)"
    by (simp add: getDocOnlyA_def)
  from resolved_college_after_effect
         [of getDocOnlyA ?w "[''a'']" "identityEffect getDocOnlyA (Some ''a'') initialState"
              "''a''" "\<lparr>profile_college = Some ''X''\<rparr>"] p
  have 1: "userCollege (feed (run getDocOnlyA (IdentityChanged None # map FetchResolved [''a'']) ?w)) = None"
    and 2: "userCollege (identityEffect getDocOnlyA None
                  (identityEffect getDocOnlyA (Some ''a'') initialState)) = None"
    by blast+
  from resolved_college_after_effect
         [of getDocOnlyA ?w "[''a'']" initialState "''a''" "\<lparr>profile_college = Some ''X''\<rparr>"] g
  have 3: "userCollege (identityEffect getDocOnlyA (Some ''a'') initialState) = Some ''X''"
    by simp
  from p u 1 2 3 g show ?thesis by simp
qed

text \<open>
  The claim as the specification words it fails in three ways. User "b" has no profile
  record, and after the effect has run for "b" the resolved college is still that of
  user "a", who was signed in before. A record whose college is the empty string gives
  an absent resolved college, not the record's college. And when "a" signs out while the
  fetch of the profile is in flight, the fetch resolves afterwards and writes the
  college X with nobody signed in.
\<close>

theorem resolved_college_counterexample:
  "getDocOnlyA (''profiles'', ''b'') = Inr None \<and>
   userCollege (identityEffect getDocOnlyA (Some ''b'')
                  (identityEffect getDocOnlyA (Some ''a'') initialState)) = Some ''X'' \<and>
   getDocEmptyCollege (''profiles'', ''a'') = Inr (Some \<lparr>profile_college = Some []\<rparr>) \<and>
   userCollege (identityEffect getDocEmptyCollege (Some ''a'') initialState) = None \<and>
   userCollege (identityEffect getDocEmptyCollege (Some ''a'') initialState) \<noteq> Some [] \<and>
   currentUser (run getDocOnlyA
      [IdentityChanged (Some ''a''), IdentityChanged None, FetchResolved ''a''] initialSession) = None \<and>
   userCollege (feed (run getDocOnlyA
      [IdentityChanged (Some ''a''), IdentityChanged None, FetchResolved ''a''] initialSession)) = Some ''X''"
  by (simp add: getDocOnlyA_def getDocEmptyCollege_def identityEffect_def fetchCollege_def
        collegeFetched_def orNull_def initialState_def initialSession_def)

end
